theory Spec2Isabelle
  imports Main
begin

section \<open>The dialog generator: values, feedback and exceptions\<close>

text \<open>
  The generator of \<^verbatim>\<open>packages/dialog/src/library/dialogGenerator.ts\<close> works on
  JSON-shaped schema trees, reports through a feedback callback and catches JavaScript
  exceptions. A tree is a datatype, the calls of the callback are the list of its
  arguments in the order they were made, and an exception is the value \<open>Exn\<close> carrying
  the text of \<open>e.message\<close>. Numbers are integers here: the generator only asks whether a
  number is zero.
\<close>

datatype json =
    JNull
  | JBool bool
  | JNum int
  | JStr string
  | JArr "json list"
  | JObj "(string \<times> json) list"

datatype FeedbackType = message | info | warning | error

type_synonym feedback = "(FeedbackType \<times> string) list"

datatype exn = Exn string

fun emsg :: "exn \<Rightarrow> string" where
  "emsg (Exn m) = m"

text \<open>
  The scope is the object handed to every evaluation. \<open>expandSchema\<close> only copies it
  with \<open>property\<close> overridden, so it is written over every record that has that field;
  the scope \<open>{}\<close> of the first pass is the record with \<open>property\<close> undefined.
\<close>

record PropScope =
  property :: "string option"

subsection \<open>JavaScript helpers\<close>

text \<open>\<open>String.prototype.substring\<close>: both indices are clamped to the string and swapped
  when the first is the larger.\<close>

definition substring :: "string \<Rightarrow> int \<Rightarrow> int \<Rightarrow> string" where
  "substring s a b =
     (let n = int (length s);
          a' = max 0 (min a n);
          b' = max 0 (min b n);
          lo = min a' b';
          hi = max a' b'
      in take (nat (hi - lo)) (drop (nat lo) s))"

definition startsWith :: "string \<Rightarrow> string \<Rightarrow> bool" where
  "startsWith s p = (take (length p) s = p)"

text \<open>Truthiness of a value, as \<open>if (value)\<close> reads it.\<close>

fun truthy :: "json \<Rightarrow> bool" where
  "truthy JNull = False"
| "truthy (JBool b) = b"
| "truthy (JNum n) = (n \<noteq> 0)"
| "truthy (JStr s) = (s \<noteq> [])"
| "truthy (JArr vs) = True"
| "truthy (JObj kvs) = True"

section \<open>The schema expression expander\<close>

text \<open>
  The expression engine is an external collaborator. One call
  \<open>expressionEngine.parse(expr).tryEvaluate(scope)\<close> either throws (a syntax error of
  \<open>parse\<close>) or returns the pair \<open>{value, error}\<close>, where \<open>error\<close> is a text or undefined.
\<close>

datatype outcome = Throws string | Evaluated json "string option"

type_synonym 'a engine = "string \<Rightarrow> 'a PropScope_scheme \<Rightarrow> outcome"

text \<open>\<open>!error\<close> holds of undefined and of the empty text; \<open>`${error}`\<close> prints undefined
  as the word.\<close>

fun noError :: "string option \<Rightarrow> bool" where
  "noError None = True"
| "noError (Some e) = (e = [])"

fun showError :: "string option \<Rightarrow> string" where
  "showError None = ''undefined''"
| "showError (Some e) = e"

text \<open>The \<open>try\<close> block of the string case (lines 262 to 273): \<open>expr\<close> is the text
  parsed, \<open>orig\<close> the node, which stays when nothing is substituted.\<close>

definition substitute ::
  "'a engine \<Rightarrow> string \<Rightarrow> string \<Rightarrow> 'a PropScope_scheme \<Rightarrow> bool \<Rightarrow> feedback \<Rightarrow> json \<times> feedback" where
  "substitute engine expr orig scope missingIsError fb =
     (case engine expr scope of
        Throws m \<Rightarrow> (JStr orig, fb @ [(error, expr @ '': '' @ m)])
      | Evaluated val err \<Rightarrow>
          if noError err \<and> truthy val then (val, fb)
          else if missingIsError then (JStr orig, fb @ [(error, expr @ '': '' @ showError err)])
          else (JStr orig, fb))"

text \<open>
  \<open>expandSchema\<close> (lines 242 to 276). \<open>typeof null\<close> is \<open>'object'\<close>, so a null node
  takes the object branch, where \<open>Object.entries(null)\<close> throws a TypeError; the feedback
  given before the throw stays given. The two loops are \<open>expandArray\<close> and
  \<open>expandEntries\<close>; an object is the list of its entries in the order of
  \<open>Object.entries\<close>, and \<open>newSchema[key] = newVal\<close> adds an entry to the new object
  (the keys are taken to be ordinary property names). The arguments the recursion does
  not inspect come after the tree.
\<close>

fun expandSchema ::
    "'a engine \<Rightarrow> bool \<Rightarrow> json \<Rightarrow> 'a PropScope_scheme \<Rightarrow> string \<Rightarrow> bool \<Rightarrow> feedback
       \<Rightarrow> (exn + json) \<times> feedback"
  and expandArray ::
    "'a engine \<Rightarrow> bool \<Rightarrow> json list \<Rightarrow> 'a PropScope_scheme \<Rightarrow> string \<Rightarrow> feedback
       \<Rightarrow> (exn + json list) \<times> feedback"
  and expandEntries ::
    "'a engine \<Rightarrow> bool \<Rightarrow> (string \<times> json) list \<Rightarrow> 'a PropScope_scheme \<Rightarrow> string \<Rightarrow> bool
       \<Rightarrow> feedback \<Rightarrow> (exn + (string \<times> json) list) \<times> feedback"
where
  "expandSchema engine missingIsError (JArr vals) = (\<lambda>scope path inProperties fb.
     case expandArray engine missingIsError vals scope path fb of
       (Inl e, fb') \<Rightarrow> (Inl e, fb')
     | (Inr newVals, fb') \<Rightarrow> (Inr (JArr newVals), fb'))"
| "expandSchema engine missingIsError (JObj entries) = (\<lambda>scope path inProperties fb.
     case expandEntries engine missingIsError entries scope path inProperties fb of
       (Inl e, fb') \<Rightarrow> (Inl e, fb')
     | (Inr newEntries, fb') \<Rightarrow> (Inr (JObj newEntries), fb'))"
| "expandSchema engine missingIsError JNull = (\<lambda>scope path inProperties fb.
     (Inl (Exn ''Cannot convert undefined or null to object''), fb))"
| "expandSchema engine missingIsError (JStr s) = (\<lambda>scope path inProperties fb.
     if startsWith s ''${''
     then (case substitute engine (substring s 2 (int (length s) - 1)) s scope missingIsError fb of
             (newSchema, fb') \<Rightarrow> (Inr newSchema, fb'))
     else (Inr (JStr s), fb))"
| "expandSchema engine missingIsError (JBool b) = (\<lambda>scope path inProperties fb. (Inr (JBool b), fb))"
| "expandSchema engine missingIsError (JNum n) = (\<lambda>scope path inProperties fb. (Inr (JNum n), fb))"
| "expandArray engine missingIsError [] = (\<lambda>scope path fb. (Inr [], fb))"
| "expandArray engine missingIsError (val # vals) = (\<lambda>scope path fb.
     case expandSchema engine missingIsError val scope path False fb of
       (Inl e, fb') \<Rightarrow> (Inl e, fb')
     | (Inr newVal, fb') \<Rightarrow>
         (case expandArray engine missingIsError vals scope path fb' of
            (Inl e, fb'') \<Rightarrow> (Inl e, fb'')
          | (Inr newVals, fb'') \<Rightarrow> (Inr (newVal # newVals), fb'')))"
| "expandEntries engine missingIsError [] = (\<lambda>scope path inProperties fb. (Inr [], fb))"
| "expandEntries engine missingIsError ((key, val) # entries) = (\<lambda>scope path inProperties fb.
     let newPath = (if inProperties then (if path = [] then key else path @ ''.'' @ key) else path)
     in case expandSchema engine missingIsError val (scope\<lparr>property := Some newPath\<rparr>) newPath
               (key = ''properties'') fb of
          (Inl e, fb') \<Rightarrow> (Inl e, fb')
        | (Inr newVal, fb') \<Rightarrow>
            (case expandEntries engine missingIsError entries scope path inProperties fb' of
               (Inl e, fb'') \<Rightarrow> (Inl e, fb'')
             | (Inr newEntries, fb'') \<Rightarrow> (Inr ((key, newVal) # newEntries), fb'')))"

text \<open>Two properties of a tree the statements below speak of: it still holds a string
  node that starts with the marker, and it holds a null node.\<close>

fun unexpanded :: "json \<Rightarrow> bool"
  and unexpandedArray :: "json list \<Rightarrow> bool"
  and unexpandedEntries :: "(string \<times> json) list \<Rightarrow> bool"
where
  "unexpanded (JStr s) = startsWith s ''${''"
| "unexpanded (JArr vals) = unexpandedArray vals"
| "unexpanded (JObj entries) = unexpandedEntries entries"
| "unexpanded JNull = False"
| "unexpanded (JBool b) = False"
| "unexpanded (JNum n) = False"
| "unexpandedArray [] = False"
| "unexpandedArray (val # vals) = (unexpanded val \<or> unexpandedArray vals)"
| "unexpandedEntries [] = False"
| "unexpandedEntries ((key, val) # entries) = (unexpanded val \<or> unexpandedEntries entries)"

fun hasNull :: "json \<Rightarrow> bool"
  and hasNullArray :: "json list \<Rightarrow> bool"
  and hasNullEntries :: "(string \<times> json) list \<Rightarrow> bool"
where
  "hasNull JNull = True"
| "hasNull (JArr vals) = hasNullArray vals"
| "hasNull (JObj entries) = hasNullEntries entries"
| "hasNull (JStr s) = False"
| "hasNull (JBool b) = False"
| "hasNull (JNum n) = False"
| "hasNullArray [] = False"
| "hasNullArray (val # vals) = (hasNull val \<or> hasNullArray vals)"
| "hasNullEntries [] = False"
| "hasNullEntries ((key, val) # entries) = (hasNull val \<or> hasNullEntries entries)"


section \<open>The emitted schema\<close>

text \<open>
  Line 370 serializes the expanded schema with
  \<open>JSON.stringify(expanded, (key, val) => (key === '$templates' || key === '$requires') ? undefined : val, 4)\<close>.
  \<open>JSON.stringify\<close> calls the replacer on the root under the empty key, on every entry
  of an object under its key and on every element of an array under its index written in
  decimal; an entry whose replacer result is undefined is left out, an element is
  rendered as null, and a result that is not undefined is the value itself, which is
  serialized in turn. \<open>stringifyTree\<close> is the tree that is rendered; the rendering of
  a tree as indented text is a parameter.
\<close>

definition replacer :: "string \<Rightarrow> json \<Rightarrow> json option" where
  "replacer key val = (if key = ''$templates'' \<or> key = ''$requires'' then None else Some val)"

fun digit :: "nat \<Rightarrow> char" where
  "digit n = ''0123456789'' ! (n mod 10)"

fun decimal :: "nat \<Rightarrow> string" where
  "decimal n = (if n < 10 then [digit n] else decimal (n div 10) @ [digit n])"

declare decimal.simps [simp del]

fun stringifyTree :: "json \<Rightarrow> json"
  and stringifyEntries :: "(string \<times> json) list \<Rightarrow> (string \<times> json) list"
  and stringifyElements :: "json list \<Rightarrow> nat \<Rightarrow> json list"
where
  "stringifyTree (JObj entries) = JObj (stringifyEntries entries)"
| "stringifyTree (JArr vals) = JArr (stringifyElements vals 0)"
| "stringifyTree JNull = JNull"
| "stringifyTree (JBool b) = JBool b"
| "stringifyTree (JNum n) = JNum n"
| "stringifyTree (JStr s) = JStr s"
| "stringifyEntries [] = []"
| "stringifyEntries ((key, val) # entries) =
     (if replacer key val = None then stringifyEntries entries
      else (key, stringifyTree val) # stringifyEntries entries)"
| "stringifyElements [] = (\<lambda>i. [])"
| "stringifyElements (val # vals) = (\<lambda>i.
     (if replacer (decimal i) val = None then JNull else stringifyTree val)
       # stringifyElements vals (Suc i))"

definition stringify :: "(json \<Rightarrow> string) \<Rightarrow> json \<Rightarrow> string option" where
  "stringify render val =
     (if replacer [] val = None then None else Some (render (stringifyTree val)))"

text \<open>Reading a tree along a path of object keys and array indices.\<close>

datatype seg = Key string | Index nat

fun select :: "json \<Rightarrow> seg list \<Rightarrow> json option" where
  "select t [] = Some t"
| "select (JObj entries) (Key k # p) =
     (case map_of entries k of None \<Rightarrow> None | Some v \<Rightarrow> select v p)"
| "select (JArr vals) (Index i # p) = (if i < length vals then select (vals ! i) p else None)"
| "select t (s # p) = None"


section \<open>Paths and the file identity tracker\<close>

text \<open>
  Node's \<open>path\<close> module, in its POSIX form. \<open>basename\<close> and \<open>extname\<close> are written out,
  since the tracker's keys are made of them. The last part of a path is what follows its
  last separator, trailing separators aside, and \<open>basename\<close> without an extension is the
  last part. \<open>extname\<close> is the last part from its last dot on, and empty when there is
  no dot, when the dot starts the part or when the part is \<open>..\<close>. The other path
  functions are parameters of the model (see \<open>externals\<close> below).
\<close>

definition trimmed :: "string \<Rightarrow> string" where
  "trimmed p = rev (dropWhile (\<lambda>c. c = CHR ''/'') (rev p))"

definition lastPart :: "string \<Rightarrow> string" where
  "lastPart p = rev (takeWhile (\<lambda>c. c \<noteq> CHR ''/'') (rev (trimmed p)))"


definition basename :: "string \<Rightarrow> string" where
  "basename p = lastPart p"

text \<open>
  \<open>basename(path, ext)\<close> with an extension is Node's loop, written as it stands. The
  loop goes through the path from its end: \<open>basenameScan path ext n\<close> is the loop when
  the indices below \<open>n\<close> are still to be visited, and its result is \<open>start\<close>, \<open>end\<close> and
  \<open>firstNonSlashEnd\<close> after the loop; the value \<open>-1\<close> of \<open>end\<close>, \<open>extIdx\<close> and
  \<open>firstNonSlashEnd\<close> is \<open>None\<close>. Trailing separators are skipped; then the characters of
  the last part are compared with those of the extension, from the end; \<open>end\<close> is set
  where the extension is matched in full, or to the end of the part at the first
  character that differs; the loop stops at the separator before the part. Afterwards an
  \<open>end\<close> equal to \<open>start\<close> becomes the end of the part, an \<open>end\<close> that was never set
  becomes the length of the path, and the result is \<open>path.slice(start, end)\<close>. So a part
  that is only the end of the extension comes with the separators that follow it.
\<close>

fun basenameScan ::
  "string \<Rightarrow> string \<Rightarrow> nat \<Rightarrow> nat option \<Rightarrow> bool \<Rightarrow> nat option \<Rightarrow> nat option
     \<Rightarrow> nat \<times> nat option \<times> nat option" where
  "basenameScan path ext 0 = (\<lambda>end matchedSlash extIdx firstNonSlashEnd.
     (0, end, firstNonSlashEnd))"
| "basenameScan path ext (Suc i) = (\<lambda>end matchedSlash extIdx firstNonSlashEnd.
     if path ! i = CHR ''/''
     then (if \<not> matchedSlash then (Suc i, end, firstNonSlashEnd)
           else basenameScan path ext i end matchedSlash extIdx firstNonSlashEnd)
     else
       (let matchedSlash' = (if firstNonSlashEnd = None then False else matchedSlash);
            first' = (if firstNonSlashEnd = None then Some (Suc i) else firstNonSlashEnd)
        in case extIdx of
             None \<Rightarrow> basenameScan path ext i end matchedSlash' None first'
           | Some x \<Rightarrow>
               if path ! i = ext ! x
               then (case x of
                       0 \<Rightarrow> basenameScan path ext i (Some i) matchedSlash' None first'
                     | Suc y \<Rightarrow> basenameScan path ext i end matchedSlash' (Some y) first')
               else basenameScan path ext i first' matchedSlash' None first'))"

text \<open>\<open>path.slice(start, end)\<close> for a \<open>start\<close> within the path; the end \<open>-1\<close> is the
  index of the last character.\<close>

definition slice :: "string \<Rightarrow> nat \<Rightarrow> nat option \<Rightarrow> string" where
  "slice s start end =
     (case end of
        None \<Rightarrow> take (length s - 1 - start) (drop start s)
      | Some e \<Rightarrow> take (e - start) (drop start s))"

definition basenameExt :: "string \<Rightarrow> string \<Rightarrow> string" where
  "basenameExt path ext =
     (if ext \<noteq> [] \<and> length ext \<le> length path
      then (if ext = path then []
            else (case basenameScan path ext (length path) None True (Some (length ext - 1)) None of
                    (start, end, firstNonSlashEnd) \<Rightarrow>
                      slice path start
                        (if Some start = end then firstNonSlashEnd
                         else if end = None then Some (length path)
                         else end)))
      else basename path)"

definition extname :: "string \<Rightarrow> string" where
  "extname p =
     (let b = lastPart p;
          afterDot = rev (takeWhile (\<lambda>c. c \<noteq> CHR ''.'') (rev b));
          stem = take (length b - length afterDot - 1) b
      in if CHR ''.'' \<notin> set b \<or> stem = [] \<or> b = ''..'' then [] else CHR ''.'' # afterDot)"

text \<open>\<open>basename.replace(/\.[^.]+\.lg/, '.lg')\<close>: the leftmost dot that is followed by
  one or more characters other than a dot and then by \<open>.lg\<close>; the match is replaced by
  \<open>.lg\<close>, and a text without a match stays.\<close>

definition matchesLocale :: "string \<Rightarrow> bool" where
  "matchesLocale s =
     (case s of
        [] \<Rightarrow> False
      | c # cs \<Rightarrow> c = CHR ''.'' \<and> takeWhile (\<lambda>d. d \<noteq> CHR ''.'') cs \<noteq> []
                   \<and> startsWith (dropWhile (\<lambda>d. d \<noteq> CHR ''.'') cs) ''.lg'')"

fun replaceLocale :: "string \<Rightarrow> string" where
  "replaceLocale [] = []"
| "replaceLocale (c # cs) =
     (if matchesLocale (c # cs)
      then ''.lg'' @ drop 3 (dropWhile (\<lambda>d. d \<noteq> CHR ''.'') cs)
      else c # replaceLocale cs)"

record FileRef =
  name :: string
  fallbackName :: string
  fullName :: string
  relative :: string

text \<open>The tracker \<open>scope.templates\<close>: from an extension to the list of the references
  claimed for it; an extension it has no list for is undefined.\<close>

type_synonym tracker = "string \<Rightarrow> FileRef list option"

text \<open>A parsed \<open>.lg\<close> file, as far as the generator looks into it: the list of its
  templates, each with its name and the path of its source. A template as
  \<open>findTemplate\<close> returns it (line 53) is a literal text or such a file; undefined is
  \<open>None\<close>. The result of evaluating the \<open>template\<close> section is a text or an array of
  texts.\<close>

record LGTemplate =
  tname :: string
  source :: string

record LGFile =
  lgtemplates :: "LGTemplate list"

datatype Template = Text string | LG LGFile

datatype evaluated = Single string | Multiple "string list"

text \<open>Modelled from the spec: the class \<open>Schema\<close> of \<open>schema.ts\<close>, which is not part of
  these sources. A schema declares its properties in order; each has a path, a type name
  (\<open>typeName()\<close>), an optional list \<open>$templates\<close> and an optional list \<open>$entities\<close>, and
  the schema itself has an optional list \<open>$templates\<close>. The property objects that
  \<open>schemaProperties()\<close> yields share their nodes with \<open>scope.schema.properties\<close>, so that
  entities a template attaches are seen by the orchestrator.\<close>

record Property =
  ptype :: string
  ptemplates :: "string list option"
  pentities :: "string list option"

record Schema =
  properties :: "(string \<times> Property) list"
  topTemplates :: "string list option"

text \<open>The scope of template materialization, with the fields the generator reads and
  writes; \<open>property\<close> is inherited from \<open>PropScope\<close>.\<close>

record Scope = PropScope +
  prefix :: string
  schema :: Schema
  templates :: tracker
  scopeLocale :: string
  scopeType :: "string option"
  scopeRole :: "string option"
  scopeEntities :: "string list option"

datatype fsnode = File string | Dir

text \<open>What a call works on: the scope, the disk (from absolute paths to what is there),
  the working directory of the process and the feedback given so far.\<close>

record State =
  theScope :: Scope
  disk :: "string \<Rightarrow> fsnode option"
  cwd :: string
  reported :: feedback

text \<open>
  The collaborators that the generator calls and that are not part of its source. The
  path functions are those of Node: \<open>pathJoin\<close> and \<open>pathDirname\<close> are \<open>path.join\<close> and
  \<open>path.dirname\<close>, \<open>pathRelative cwd\<close> is \<open>path.relative\<close> when the working directory
  is \<open>cwd\<close>, and \<open>pathResolve cwd p\<close> is the absolute path the file system reads for
  \<open>p\<close> then. The evaluators are \<open>template.evaluateTemplate(section, scope)\<close> for the
  four sections; each is taken to return a value of the type its cast names or to throw,
  and to change nothing. They see the whole state, the working directory included.
  \<open>parseLG\<close> is \<open>LGParser.parseFile\<close> on a file that was read; \<open>writeLG\<close> is the text
  \<open>fs.writeFile\<close> writes when it is handed an \<open>LGFile\<close> object, or the error it
  throws; \<open>entityTypes\<close> is the method of \<open>Schema\<close>.
\<close>

record externals =
  pathJoin :: "string \<Rightarrow> string \<Rightarrow> string"
  pathRelative :: "string \<Rightarrow> string \<Rightarrow> string \<Rightarrow> string"
  pathDirname :: "string \<Rightarrow> string"
  pathResolve :: "string \<Rightarrow> string \<Rightarrow> string"
  parseLG :: "string \<Rightarrow> string \<Rightarrow> exn + LGFile"
  writeLG :: "LGFile \<Rightarrow> exn + string"
  evalFilename :: "LGFile \<Rightarrow> State \<Rightarrow> exn + string"
  evalTemplate :: "LGFile \<Rightarrow> State \<Rightarrow> exn + evaluated"
  evalEntities :: "LGFile \<Rightarrow> State \<Rightarrow> exn + string list option"
  evalTemplates :: "LGFile \<Rightarrow> State \<Rightarrow> exn + string list"
  entityTypes :: "Schema \<Rightarrow> string list"

text \<open>
  \<open>addEntry\<close> (lines 80 to 94). It reads the tracker and builds the reference; it does
  not add it. \<open>tracker[ext]\<close> of an extension without a list is undefined, and
  \<open>arr.find\<close> then throws a TypeError. \<open>path.relative\<close> resolves both paths against the
  working directory, which is its first argument here.
\<close>

definition addEntry ::
  "externals \<Rightarrow> string \<Rightarrow> string \<Rightarrow> string \<Rightarrow> tracker \<Rightarrow> exn + FileRef option" where
  "addEntry ex dir fullPath outDir tr =
     (let base = basenameExt fullPath ''.dialog'';
          ext = drop 1 (extname fullPath)
      in case tr ext of
           None \<Rightarrow> Inl (Exn ''Cannot read property 'find' of undefined'')
         | Some arr \<Rightarrow>
             if find (\<lambda>r. name r = base) arr = None
             then Inr (Some \<lparr>name = base,
                              fallbackName = replaceLocale base,
                              fullName = basename fullPath,
                              relative = pathRelative ex dir outDir fullPath\<rparr>)
             else Inr None)"

text \<open>\<open>existingRef\<close> (lines 96 to 104): it gives the extension an empty list when it has
  none, and returns the tracker with it.\<close>

definition existingRef :: "string \<Rightarrow> tracker \<Rightarrow> FileRef option \<times> tracker" where
  "existingRef nm tr =
     (let ext = drop 1 (extname nm)
      in case tr ext of
           None \<Rightarrow> (find (\<lambda>r. fullName r = nm) [], tr(ext \<mapsto> []))
         | Some arr \<Rightarrow> (find (\<lambda>r. fullName r = nm) arr, tr))"


section \<open>The file system and the template locator\<close>

text \<open>
  The calls of \<open>fs-extra\<close>. A relative path is read against the working directory.
  \<open>pathExists\<close> holds of files and of directories; \<open>readFile\<close> of a directory and
  \<open>writeFile\<close> onto one throw; \<open>ensureDir\<close> throws when a file stands at the path. The
  directories above a path are not modelled, and \<open>process.chdir\<close> is taken to succeed.
\<close>

definition pathExists :: "externals \<Rightarrow> State \<Rightarrow> string \<Rightarrow> bool" where
  "pathExists ex st p = (disk st (pathResolve ex (cwd st) p) \<noteq> None)"

definition readFile :: "externals \<Rightarrow> State \<Rightarrow> string \<Rightarrow> exn + string" where
  "readFile ex st p =
     (case disk st (pathResolve ex (cwd st) p) of
        None \<Rightarrow> Inl (Exn (''ENOENT: no such file or directory, open '' @ p))
      | Some Dir \<Rightarrow> Inl (Exn ''EISDIR: illegal operation on a directory, read'')
      | Some (File text) \<Rightarrow> Inr text)"

definition ensureDir :: "externals \<Rightarrow> State \<Rightarrow> string \<Rightarrow> exn + State" where
  "ensureDir ex st p =
     (case disk st (pathResolve ex (cwd st) p) of
        Some (File text) \<Rightarrow> Inl (Exn (''EEXIST: file already exists, mkdir '' @ p))
      | _ \<Rightarrow> Inr (st\<lparr>disk := (disk st)(pathResolve ex (cwd st) p \<mapsto> Dir)\<rparr>))"

definition fsWriteFile :: "externals \<Rightarrow> State \<Rightarrow> string \<Rightarrow> string \<Rightarrow> exn + State" where
  "fsWriteFile ex st p text =
     (case disk st (pathResolve ex (cwd st) p) of
        Some Dir \<Rightarrow> Inl (Exn (''EISDIR: illegal operation on a directory, open '' @ p))
      | _ \<Rightarrow> Inr (st\<lparr>disk := (disk st)(pathResolve ex (cwd st) p \<mapsto> File text)\<rparr>))"

definition chdir :: "string \<Rightarrow> State \<Rightarrow> State" where
  "chdir d st = st\<lparr>cwd := d\<rparr>"

definition report :: "FeedbackType \<Rightarrow> string \<Rightarrow> State \<Rightarrow> State" where
  "report ty msg st = st\<lparr>reported := reported st @ [(ty, msg)]\<rparr>"

definition templatePath :: "externals \<Rightarrow> string \<Rightarrow> string \<Rightarrow> string" where
  "templatePath ex nm d = pathJoin ex d nm"

text \<open>\<open>LGParser.parseFile(loc)\<close> reads the file and parses it.\<close>

definition parseFile :: "externals \<Rightarrow> State \<Rightarrow> string \<Rightarrow> exn + LGFile" where
  "parseFile ex st loc =
     (case readFile ex st loc of Inl e \<Rightarrow> Inl e | Inr text \<Rightarrow> parseLG ex loc text)"

text \<open>
  \<open>findTemplate\<close> (lines 55 to 71). \<open>findLoop\<close> is its loop, with the variable \<open>template\<close>
  as the last argument; the result \<open>None\<close> is undefined. An exception of a read leaves
  the loop.
\<close>

fun findLoop ::
  "externals \<Rightarrow> State \<Rightarrow> string \<Rightarrow> string list \<Rightarrow> Template option \<Rightarrow> exn + Template option" where
  "findLoop ex st nm [] = (\<lambda>template. Inr template)"
| "findLoop ex st nm (d # dirs) = (\<lambda>template.
     if pathExists ex st (templatePath ex nm d)
     then (case readFile ex st (templatePath ex nm d) of
             Inl e \<Rightarrow> Inl e
           | Inr text \<Rightarrow> findLoop ex st nm dirs (Some (Text text)))
     else if pathExists ex st (templatePath ex (nm @ ''.lg'') d)
     then (case parseFile ex st (templatePath ex (nm @ ''.lg'') d) of
             Inl e \<Rightarrow> Inl e
           | Inr lgFile \<Rightarrow> findLoop ex st nm dirs (Some (LG lgFile)))
     else findLoop ex st nm dirs template)"

definition findTemplate ::
  "externals \<Rightarrow> State \<Rightarrow> string \<Rightarrow> string list \<Rightarrow> exn + Template option" where
  "findTemplate ex st nm templateDirs = findLoop ex st nm templateDirs None"

text \<open>What one directory holds for a name: nothing, or the outcome of reading the literal
  file, or else of parsing the \<open>.lg\<close> file. The statements about the locator are phrased
  with it.\<close>

definition probe :: "externals \<Rightarrow> State \<Rightarrow> string \<Rightarrow> string \<Rightarrow> (exn + Template) option" where
  "probe ex st nm d =
     (if pathExists ex st (templatePath ex nm d)
      then Some (map_sum id Text (readFile ex st (templatePath ex nm d)))
      else if pathExists ex st (templatePath ex (nm @ ''.lg'') d)
      then Some (map_sum id LG (parseFile ex st (templatePath ex (nm @ ''.lg'') d)))
      else None)"

definition contains :: "externals \<Rightarrow> State \<Rightarrow> string \<Rightarrow> string \<Rightarrow> bool" where
  "contains ex st nm d =
     (pathExists ex st (templatePath ex nm d) \<or> pathExists ex st (templatePath ex (nm @ ''.lg'') d))"


section \<open>The template materializer\<close>

definition addPrefix :: "string \<Rightarrow> string \<Rightarrow> string" where
  "addPrefix pre nm = pre @ ''-'' @ nm"

text \<open>\<open>String.prototype.includes\<close>, \<open>Array.prototype.join('\n')\<close>, and what a template
  literal prints for a text that may be undefined.\<close>

fun includesText :: "string \<Rightarrow> string \<Rightarrow> bool" where
  "includesText [] sub = (sub = [])"
| "includesText (c # cs) sub = (startsWith (c # cs) sub \<or> includesText cs sub)"

fun joinLines :: "string list \<Rightarrow> string" where
  "joinLines [] = []"
| "joinLines [l] = l"
| "joinLines (l # ls) = l @ [CHR 0x0A] @ joinLines ls"

fun printed :: "string option \<Rightarrow> string" where
  "printed None = ''undefined''"
| "printed (Some s) = s"

text \<open>\<open>template.templates.some(f => f.name === section)\<close>.\<close>

definition hasSection :: "LGFile \<Rightarrow> string \<Rightarrow> bool" where
  "hasSection lgFile section = list_ex (\<lambda>f. tname f = section) (lgtemplates lgFile)"

definition setTracker :: "tracker \<Rightarrow> State \<Rightarrow> State" where
  "setTracker tr st = st\<lparr>theScope := (theScope st)\<lparr>templates := tr\<rparr>\<rparr>"

text \<open>Line 160, \<open>scope.templates[ext].push(ref)\<close>.\<close>

definition pushRef :: "string \<Rightarrow> FileRef \<Rightarrow> State \<Rightarrow> exn + State" where
  "pushRef outPath ref st =
     (let ext = drop 1 (extname outPath)
      in case templates (theScope st) ext of
           None \<Rightarrow> Inl (Exn ''Cannot read property 'push' of undefined'')
         | Some arr \<Rightarrow> Inr (setTracker ((templates (theScope st))(ext \<mapsto> arr @ [ref])) st))"

text \<open>Lines 142 to 149: the body is the literal text, or the \<open>template\<close> section
  evaluated in the directory of the template's source, its parts joined by line breaks.\<close>

definition evaluateBody :: "externals \<Rightarrow> Template \<Rightarrow> State \<Rightarrow> (exn + string) \<times> State" where
  "evaluateBody ex template st =
     (case template of
        Text text \<Rightarrow> (Inr text, st)
      | LG lgFile \<Rightarrow>
          (case lgtemplates lgFile of
             [] \<Rightarrow> (Inl (Exn ''Cannot read property 'source' of undefined''), st)
           | first # rest \<Rightarrow>
               let st' = chdir (pathDirname ex (source first)) st
               in case evalTemplate ex lgFile st' of
                    Inl e \<Rightarrow> (Inl e, st')
                  | Inr (Single s) \<Rightarrow> (Inr s, st')
                  | Inr (Multiple ss) \<Rightarrow> (Inr (joinLines ss), st')))"

text \<open>Lines 152 to 155: a truthy template found under the name of the output file
  replaces the body; it is a text, or an \<open>LGFile\<close> object.\<close>

definition overridden :: "Template option \<Rightarrow> string \<Rightarrow> string + LGFile" where
  "overridden existing result =
     (case existing of
        None \<Rightarrow> Inl result
      | Some (Text text) \<Rightarrow> if text = [] then Inl result else Inl text
      | Some (LG lgFile) \<Rightarrow> Inr lgFile)"

text \<open>Lines 157 to 160. The results of the steps below are an exception or none, with
  the state reached.\<close>

definition writeResult ::
  "externals \<Rightarrow> string \<Rightarrow> string + LGFile \<Rightarrow> FileRef \<Rightarrow> State \<Rightarrow> exn option \<times> State" where
  "writeResult ex outPath result ref st =
     (case ensureDir ex st (pathDirname ex outPath) of
        Inl e \<Rightarrow> (Some e, st)
      | Inr st1 \<Rightarrow>
          (case (case result of Inl text \<Rightarrow> Inr text | Inr lgFile \<Rightarrow> writeLG ex lgFile) of
             Inl e \<Rightarrow> (Some e, st1)
           | Inr text \<Rightarrow>
               (case fsWriteFile ex st1 outPath text of
                  Inl e \<Rightarrow> (Some e, st1)
                | Inr st2 \<Rightarrow>
                    (case pushRef outPath ref st2 of
                       Inl e \<Rightarrow> (Some e, st2)
                     | Inr st3 \<Rightarrow> (None, st3)))))"

text \<open>Lines 141 to 160, the branch that writes.\<close>

definition generateFile ::
  "externals \<Rightarrow> string list \<Rightarrow> Template \<Rightarrow> string \<Rightarrow> string \<Rightarrow> FileRef \<Rightarrow> State
     \<Rightarrow> exn option \<times> State" where
  "generateFile ex templateDirs template filename outPath ref st =
     (case evaluateBody ex template (report info (''Generating '' @ outPath) st) of
        (Inl e, st1) \<Rightarrow> (Some e, st1)
      | (Inr result, st1) \<Rightarrow>
          (case findTemplate ex st1 filename templateDirs of
             Inl e \<Rightarrow> (Some e, st1)
           | Inr existing \<Rightarrow> writeResult ex outPath (overridden existing result) ref st1))"

text \<open>Lines 128 to 134, the name of the output file.\<close>

definition localized :: "string \<Rightarrow> State \<Rightarrow> string" where
  "localized filename st =
     (if includesText filename (scopeLocale (theScope st))
      then scopeLocale (theScope st) @ ''/'' @ filename
      else filename)"

definition chooseFilename :: "externals \<Rightarrow> Template \<Rightarrow> string \<Rightarrow> State \<Rightarrow> exn + string" where
  "chooseFilename ex template templateName st =
     (case template of
        LG lgFile \<Rightarrow>
          if hasSection lgFile ''filename'' then evalFilename ex lgFile st
          else Inr (localized (addPrefix (prefix (theScope st)) templateName) st)
      | Text text \<Rightarrow> Inr (localized (addPrefix (prefix (theScope st)) templateName) st))"

text \<open>Lines 128 to 165. The result carries \<open>outPath\<close> as it stands when the step ends,
  also when it ends by an exception.\<close>

definition outputFile ::
  "externals \<Rightarrow> string list \<Rightarrow> string \<Rightarrow> bool \<Rightarrow> Template \<Rightarrow> string \<Rightarrow> State
     \<Rightarrow> exn option \<times> string \<times> State" where
  "outputFile ex templateDirs outDir force template templateName st =
     (case chooseFilename ex template templateName st of
        Inl e \<Rightarrow> (Some e, [], st)
      | Inr filename \<Rightarrow>
          let outPath = pathJoin ex outDir filename
          in case addEntry ex (cwd st) outPath outDir (templates (theScope st)) of
               Inl e \<Rightarrow> (Some e, outPath, st)
             | Inr None \<Rightarrow> (None, outPath, st)
             | Inr (Some ref) \<Rightarrow>
                 if force \<or> \<not> pathExists ex st outPath
                 then (case generateFile ex templateDirs template filename outPath ref st of
                         (status, st') \<Rightarrow> (status, outPath, st'))
                 else (None, outPath, report warning (''Skipping already existing '' @ outPath) st))"

text \<open>Lines 169 to 174: the \<open>entities\<close> section is evaluated when the property of the
  scope has no \<open>$entities\<close> yet, and a truthy result is attached to the property. A scope
  whose property is not a property of the schema makes the test throw.\<close>

definition setEntities :: "string \<Rightarrow> string list \<Rightarrow> State \<Rightarrow> State" where
  "setEntities key es st =
     st\<lparr>theScope := (theScope st)\<lparr>schema := (schema (theScope st))
        \<lparr>properties := map (\<lambda>(k, p). if k = key then (k, p\<lparr>pentities := Some es\<rparr>) else (k, p))
                          (properties (schema (theScope st)))\<rparr>\<rparr>\<rparr>"

definition attachEntities :: "externals \<Rightarrow> LGFile \<Rightarrow> State \<Rightarrow> exn option \<times> State" where
  "attachEntities ex lgFile st =
     (if hasSection lgFile ''entities''
      then (case map_of (properties (schema (theScope st))) (printed (property (theScope st))) of
              None \<Rightarrow> (Some (Exn ''Cannot read property '$entities' of undefined''), st)
            | Some p \<Rightarrow>
                if pentities p = None
                then (case evalEntities ex lgFile st of
                        Inl e \<Rightarrow> (Some e, st)
                      | Inr None \<Rightarrow> (None, st)
                      | Inr (Some es) \<Rightarrow> (None, setEntities (printed (property (theScope st))) es st))
                else (None, st))
      else (None, st))"

text \<open>A loop \<open>for (let t of names) await processTemplate(t, ...)\<close>, with the call as a
  parameter; the call yields nothing when it does not return.\<close>

fun generateAll ::
  "(string \<Rightarrow> State \<Rightarrow> (string \<times> State) option) \<Rightarrow> string list \<Rightarrow> State \<Rightarrow> State option" where
  "generateAll callee [] st = Some st"
| "generateAll callee (g # gs) st =
     (case callee g st of None \<Rightarrow> None | Some (outPath, st') \<Rightarrow> generateAll callee gs st')"

text \<open>Lines 175 to 180.\<close>

definition fanOut ::
  "externals \<Rightarrow> (string \<Rightarrow> State \<Rightarrow> (string \<times> State) option) \<Rightarrow> LGFile \<Rightarrow> State
     \<Rightarrow> (exn option \<times> State) option" where
  "fanOut ex callee lgFile st =
     (if hasSection lgFile ''templates''
      then (case evalTemplates ex lgFile st of
              Inl e \<Rightarrow> Some (Some e, st)
            | Inr generated \<Rightarrow>
                (case generateAll callee generated st of
                   None \<Rightarrow> None
                 | Some st' \<Rightarrow> Some (None, st')))
      else Some (None, st))"

text \<open>Lines 168 to 181.\<close>

definition sections ::
  "externals \<Rightarrow> (string \<Rightarrow> State \<Rightarrow> (string \<times> State) option) \<Rightarrow> Template \<Rightarrow> State
     \<Rightarrow> (exn option \<times> State) option" where
  "sections ex callee template st =
     (case template of
        Text text \<Rightarrow> Some (None, st)
      | LG lgFile \<Rightarrow>
          (case attachEntities ex lgFile st of
             (Some e, st1) \<Rightarrow> Some (Some e, st1)
           | (None, st1) \<Rightarrow> fanOut ex callee lgFile st1))"

text \<open>
  Lines 125 to 182, what is done with a template that was found. \<open>self\<close> stands for the
  recursive call of line 178. An empty literal template is falsy and does nothing; a
  template writes a file when it is a literal or has a \<open>template\<close> section. The result
  is the exception that ended the step, if any, the value of \<open>outPath\<close> and the state; it
  is \<open>None\<close> when a recursive call does not return.
\<close>

definition materialize ::
  "externals \<Rightarrow> (string \<Rightarrow> State \<Rightarrow> (string \<times> State) option) \<Rightarrow> Template \<Rightarrow> string \<Rightarrow> string list
     \<Rightarrow> string \<Rightarrow> bool \<Rightarrow> State \<Rightarrow> (exn option \<times> string \<times> State) option" where
  "materialize ex self template templateName templateDirs outDir force st =
     (if template = Text [] then Some (None, [], st)
      else
        (case (if (case template of Text text \<Rightarrow> True
                                  | LG lgFile \<Rightarrow> hasSection lgFile ''template'')
               then outputFile ex templateDirs outDir force template templateName st
               else (None, [], st)) of
           (Some e, outPath, st1) \<Rightarrow> Some (Some e, outPath, st1)
         | (None, outPath, st1) \<Rightarrow>
             (case sections ex self template st1 of
                None \<Rightarrow> None
              | Some (status, st2) \<Rightarrow> Some (status, outPath, st2))))"

text \<open>The \<open>try\<close> block of \<open>processTemplate\<close> (lines 117 to 186).\<close>

definition tryBlock ::
  "externals \<Rightarrow> (string \<Rightarrow> State \<Rightarrow> (string \<times> State) option) \<Rightarrow> string \<Rightarrow> string list \<Rightarrow> string
     \<Rightarrow> bool \<Rightarrow> bool \<Rightarrow> State \<Rightarrow> (exn option \<times> string \<times> State) option" where
  "tryBlock ex self templateName templateDirs outDir force ignorable st =
     (case existingRef templateName (templates (theScope st)) of
        (Some ref, tr) \<Rightarrow> Some (None, pathJoin ex outDir (relative ref), setTracker tr st)
      | (None, tr) \<Rightarrow>
          (case findTemplate ex (setTracker tr st) templateName templateDirs of
             Inl e \<Rightarrow> Some (Some e, [], setTracker tr st)
           | Inr None \<Rightarrow>
               if \<not> ignorable
               then Some (None, [], report error (''Missing template '' @ templateName) (setTracker tr st))
               else Some (None, [], setTracker tr st)
           | Inr (Some template) \<Rightarrow>
               materialize ex self template templateName templateDirs outDir force
                 (setTracker tr st)))"

text \<open>
  \<open>processTemplate\<close> (lines 106 to 193): the \<open>try\<close> block, the \<open>catch\<close> that reports the
  message of the exception, and the \<open>finally\<close> that returns to the directory saved at
  entry. The recursion through the \<open>templates\<close> section need not end (a template may
  name itself), so the function takes the depth of calls it may use and yields \<open>None\<close>
  when that is not enough. Every call of the source passes \<open>false\<close> for \<open>ignorable\<close>.
\<close>

definition processTemplateBody ::
  "externals \<Rightarrow> (string \<Rightarrow> string list \<Rightarrow> string \<Rightarrow> bool \<Rightarrow> bool \<Rightarrow> State \<Rightarrow> (string \<times> State) option)
     \<Rightarrow> string \<Rightarrow> string list \<Rightarrow> string \<Rightarrow> bool \<Rightarrow> bool \<Rightarrow> State \<Rightarrow> (string \<times> State) option" where
  "processTemplateBody ex self templateName templateDirs outDir force ignorable st =
     (let oldDir = cwd st
      in case tryBlock ex (\<lambda>generate. self generate templateDirs outDir force False)
                templateName templateDirs outDir force ignorable st of
           None \<Rightarrow> None
         | Some (None, outPath, st1) \<Rightarrow> Some (outPath, chdir oldDir st1)
         | Some (Some e, outPath, st1) \<Rightarrow> Some (outPath, chdir oldDir (report error (emsg e) st1)))"

primrec processTemplate ::
  "externals \<Rightarrow> nat \<Rightarrow> string \<Rightarrow> string list \<Rightarrow> string \<Rightarrow> bool \<Rightarrow> bool \<Rightarrow> State
     \<Rightarrow> (string \<times> State) option" where
  "processTemplate ex 0 = (\<lambda>templateName templateDirs outDir force ignorable st. None)"
| "processTemplate ex (Suc depth) = processTemplateBody ex (processTemplate ex depth)"


section \<open>The generation orchestrator\<close>

text \<open>\<open>String.prototype.split\<close> with a separator of one character.\<close>

fun splitOn :: "char \<Rightarrow> string \<Rightarrow> string list" where
  "splitOn c [] = [[]]"
| "splitOn c (x # xs) =
     (if x = c then [] # splitOn c xs
      else (case splitOn c xs of [] \<Rightarrow> [[x]] | part # parts \<Rightarrow> (x # part) # parts))"

text \<open>Lines 221 to 226: the role is stored in the scope, and the name of the template
  of an entity is made of the entity's name, or of the type when the entity is named
  after the property, and of the type.\<close>

definition entityTemplate :: "string \<Rightarrow> State \<Rightarrow> string \<times> State" where
  "entityTemplate entity st =
     (let parts = splitOn CHR '':'' entity;
          entityName = (case parts of [] \<Rightarrow> ''undefined'' | n # rest \<Rightarrow> n);
          role = (case parts of n # r # rest \<Rightarrow> Some r | _ \<Rightarrow> None);
          st1 = st\<lparr>theScope := (theScope st)\<lparr>scopeRole := role\<rparr>\<rparr>;
          ty = printed (scopeType (theScope st1));
          entityName' = (if entityName = printed (property (theScope st1)) @ ''Entity''
                         then ty else entityName)
      in (entityName' @ ''Entity-'' @ ty, st1))"

fun entityLoop ::
  "(string \<Rightarrow> State \<Rightarrow> (string \<times> State) option) \<Rightarrow> string list \<Rightarrow> State \<Rightarrow> State option" where
  "entityLoop callee [] st = Some st"
| "entityLoop callee (entity # entities) st =
     (case entityTemplate entity st of
        (templateName, st1) \<Rightarrow>
          (case callee templateName st1 of
             None \<Rightarrow> None
           | Some (outPath, st2) \<Rightarrow> entityLoop callee entities st2))"

text \<open>\<open>property.schema.$entities\<close> as line 216 reads it: from the node of the property
  in the schema of the scope, after the templates of the property were processed.\<close>

definition entitiesOf :: "State \<Rightarrow> string \<Rightarrow> string list option" where
  "entitiesOf st key =
     (case map_of (properties (schema (theScope st))) key of
        None \<Rightarrow> None
      | Some p \<Rightarrow> pentities p)"

text \<open>Lines 216 to 228, for the property \<open>key\<close> with its declaration \<open>prop\<close>.\<close>

definition processEntities ::
  "(string \<Rightarrow> State \<Rightarrow> (string \<times> State) option) \<Rightarrow> string \<Rightarrow> Property \<Rightarrow> State \<Rightarrow> State option" where
  "processEntities callee key prop st =
     (case entitiesOf st key of
        None \<Rightarrow>
          Some (report error (key @ '' does not have $entities defined in schema or template.'') st)
      | Some entities \<Rightarrow>
          if ptemplates prop = None then entityLoop callee entities st else Some st)"

text \<open>Lines 207 to 228, one round of the loop over the properties.\<close>

definition processProperty ::
  "(string \<Rightarrow> State \<Rightarrow> (string \<times> State) option) \<Rightarrow> string \<times> Property \<Rightarrow> State \<Rightarrow> State option" where
  "processProperty callee entry st =
     (case entry of
        (key, prop) \<Rightarrow>
          (case generateAll callee
                  (case ptemplates prop of None \<Rightarrow> [ptype prop] | Some ts \<Rightarrow> ts)
                  (st\<lparr>theScope := (theScope st)\<lparr>property := Some key,
                                                 scopeType := Some (ptype prop)\<rparr>\<rparr>) of
             None \<Rightarrow> None
           | Some st1 \<Rightarrow> processEntities callee key prop st1))"

fun propertyLoop ::
  "(string \<Rightarrow> State \<Rightarrow> (string \<times> State) option) \<Rightarrow> (string \<times> Property) list \<Rightarrow> State
     \<Rightarrow> State option" where
  "propertyLoop callee [] st = Some st"
| "propertyLoop callee (entry # entries) st =
     (case processProperty callee entry st of
        None \<Rightarrow> None
      | Some st1 \<Rightarrow> propertyLoop callee entries st1)"

text \<open>Lines 232 to 237, the templates of the schema itself.\<close>

definition processTop ::
  "externals \<Rightarrow> (string \<Rightarrow> State \<Rightarrow> (string \<times> State) option) \<Rightarrow> State \<Rightarrow> State option" where
  "processTop ex callee st =
     (case topTemplates (schema (theScope st)) of
        None \<Rightarrow> Some st
      | Some ts \<Rightarrow>
          generateAll callee ts
            (st\<lparr>theScope := (theScope st)
                  \<lparr>scopeEntities := Some (entityTypes ex (schema (theScope st)))\<rparr>\<rparr>))"

fun localeLoop ::
  "externals \<Rightarrow> (string \<Rightarrow> State \<Rightarrow> (string \<times> State) option) \<Rightarrow> string list \<Rightarrow> State
     \<Rightarrow> State option" where
  "localeLoop ex callee [] st = Some st"
| "localeLoop ex callee (l # ls) st =
     (case propertyLoop callee (properties (schema (theScope st)))
             (st\<lparr>theScope := (theScope st)\<lparr>scopeLocale := l\<rparr>\<rparr>) of
        None \<Rightarrow> None
      | Some st1 \<Rightarrow>
          (case processTop ex callee st1 of
             None \<Rightarrow> None
           | Some st2 \<Rightarrow> localeLoop ex callee ls st2))"

text \<open>
  \<open>processTemplates\<close> (lines 195 to 239). The schema is the one of the scope
  (\<open>scope.schema\<close> is \<open>schema.schema\<close>, line 359); \<open>depth\<close> bounds each call of
  \<open>processTemplate\<close>.
\<close>

definition processTemplates ::
  "externals \<Rightarrow> nat \<Rightarrow> string list \<Rightarrow> string list \<Rightarrow> string \<Rightarrow> bool \<Rightarrow> State \<Rightarrow> State option" where
  "processTemplates ex depth templateDirs locales outDir force st =
     localeLoop ex (\<lambda>templateName. processTemplate ex depth templateName templateDirs outDir force False)
       locales (setTracker Map.empty st)"


section \<open>Writing the final schema\<close>

text \<open>\<open>writeFile\<close> (lines 29 to 42): it writes when \<open>force\<close> is set or nothing is at
  the path, warns otherwise, and reports an exception of the file system.\<close>

definition writeFile :: "externals \<Rightarrow> string \<Rightarrow> string \<Rightarrow> bool \<Rightarrow> State \<Rightarrow> State" where
  "writeFile ex path val force st =
     (if force \<or> \<not> pathExists ex st path
      then (case ensureDir ex (report info (''Generating '' @ path) st) (pathDirname ex path) of
              Inl e \<Rightarrow> report error (emsg e) (report info (''Generating '' @ path) st)
            | Inr st1 \<Rightarrow>
                (case fsWriteFile ex st1 path val of
                   Inl e \<Rightarrow> report error (emsg e) st1
                 | Inr st2 \<Rightarrow> st2))
      else report warning (''Skipping already existing '' @ path) st)"

text \<open>
  The end of \<open>generate\<close> (lines 366 to 374): the strict expansion of the schema against
  the scope, its serialization, and the write of \<open><prefix>.schema.dialog\<close>. An exception
  of the expansion is reported by the \<open>catch\<close> of \<open>generate\<close>, and nothing is written.
\<close>

definition emitSchema ::
  "externals \<Rightarrow> (string \<Rightarrow> Scope \<Rightarrow> outcome) \<Rightarrow> (json \<Rightarrow> string) \<Rightarrow> string \<Rightarrow> bool \<Rightarrow> json
     \<Rightarrow> State \<Rightarrow> State" where
  "emitSchema ex engine render outDir force tree st =
     (case expandSchema engine True tree (theScope st) [] False (reported st) of
        (Inl e, fb') \<Rightarrow> report error (emsg e) (st\<lparr>reported := fb'\<rparr>)
      | (Inr expanded, fb') \<Rightarrow>
          (case stringify render expanded of
             None \<Rightarrow> st\<lparr>reported := fb'\<rparr>
           | Some body \<Rightarrow>
               writeFile ex (pathJoin ex outDir (prefix (theScope st) @ ''.schema.dialog''))
                 body force (st\<lparr>reported := fb'\<rparr>)))"


section \<open>A concrete setting\<close>

text \<open>
  The statements below are evaluated in this setting: simple path functions on absolute
  paths, a parser that takes every line \<open># name\<close> of a file for a section, and evaluators
  with fixed results (the body of a template is the working directory it is evaluated
  in). \<open>blank\<close> is the state of a run for a schema, before \<open>processTemplates\<close>.
\<close>

definition demoParse :: "string \<Rightarrow> string \<Rightarrow> exn + LGFile" where
  "demoParse loc text =
     Inr \<lparr>lgtemplates = map (\<lambda>l. \<lparr>tname = drop 2 l, source = loc\<rparr>)
                             (filter (\<lambda>l. startsWith l ''# '') (splitOn (CHR 0x0A) text))\<rparr>"

definition demo :: externals where
  "demo =
     \<lparr>pathJoin = (\<lambda>a b. a @ ''/'' @ b),
      pathRelative = (\<lambda>d a b. if startsWith b (a @ ''/'') then drop (length a + 1) b else b),
      pathDirname = (\<lambda>p. rev (drop 1 (dropWhile (\<lambda>c. c \<noteq> CHR ''/'') (rev p)))),
      pathResolve = (\<lambda>d p. if startsWith p ''/'' then p else d @ ''/'' @ p),
      parseLG = demoParse,
      writeLG = (\<lambda>lgFile. Inl (Exn ''The data argument must be of type string'')),
      evalFilename = (\<lambda>lgFile st. Inr (prefix (theScope st) @ ''.lg'')),
      evalTemplate = (\<lambda>lgFile st. Inr (Single (cwd st))),
      evalEntities = (\<lambda>lgFile st. Inr (Some [''age''])),
      evalTemplates = (\<lambda>lgFile st. Inr []),
      entityTypes = (\<lambda>s. [])\<rparr>"

definition blank :: "(string \<times> Property) list \<Rightarrow> (string \<Rightarrow> fsnode option) \<Rightarrow> State" where
  "blank props files =
     \<lparr>theScope = \<lparr>property = None, prefix = ''bot'',
                   schema = \<lparr>properties = props, topTemplates = None\<rparr>,
                   templates = Map.empty, scopeLocale = ''en'', scopeType = None,
                   scopeRole = None, scopeEntities = None\<rparr>,
      disk = files, cwd = ''/w'', reported = []\<rparr>"

section \<open>Properties of the expander\<close>

lemma expand_plain:
  "\<forall>scope path inProperties fb. \<not> unexpanded t \<longrightarrow> \<not> hasNull t \<longrightarrow>
      expandSchema engine m t scope path inProperties fb = (Inr t, fb)"
  "\<forall>scope path fb. \<not> unexpandedArray ts \<longrightarrow> \<not> hasNullArray ts \<longrightarrow>
      expandArray engine m ts scope path fb = (Inr ts, fb)"
  "\<forall>scope path inProperties fb. \<not> unexpandedEntries es \<longrightarrow> \<not> hasNullEntries es \<longrightarrow>
      expandEntries engine m es scope path inProperties fb = (Inr es, fb)"
  by (induction engine m t and engine m ts and engine m es
      rule: expandSchema_expandArray_expandEntries.induct) (simp_all add: Let_def)

text \<open>
  Claim C3, as amended. For a string node that starts with the marker, with \<open>expr\<close> the
  text handed to the engine: when the engine throws (a parse error), the error is
  reported on the strict and on the forgiving pass alike; when \<open>tryEvaluate\<close> returns an
  error or a falsy value, the error is reported only when \<open>missingIsError\<close> is true. In
  both cases the node is returned unchanged. A successful evaluation substitutes the
  value and reports nothing.
\<close>

theorem expandSchema_reports_failure:
  assumes "startsWith s ''${''" and "expr = substring s 2 (int (length s) - 1)"
  shows "(engine expr scope = Throws m \<longrightarrow>
            expandSchema engine missingIsError (JStr s) scope path inProperties fb
              = (Inr (JStr s), fb @ [(error, expr @ '': '' @ m)]))
       \<and> (engine expr scope = Evaluated val err \<and> \<not> (noError err \<and> truthy val) \<longrightarrow>
            expandSchema engine missingIsError (JStr s) scope path inProperties fb
              = (Inr (JStr s),
                 if missingIsError then fb @ [(error, expr @ '': '' @ showError err)] else fb))
       \<and> (engine expr scope = Evaluated val err \<and> noError err \<and> truthy val \<longrightarrow>
            expandSchema engine missingIsError (JStr s) scope path inProperties fb = (Inr val, fb))"
  using assms by (simp add: substitute_def)

text \<open>The theorem at an expression whose evaluation returns an error: the forgiving
  pass leaves the node and reports nothing.\<close>

theorem expandSchema_reports_failure_witness:
  "startsWith ''${x}'' ''${''
   \<and> expandSchema (\<lambda>expr scope. Evaluated JNull (Some ''x is not defined'')) False (JStr ''${x}'')
        \<lparr>property = None\<rparr> [] False [] = (Inr (JStr ''${x}''), [])"
proof -
  have h1: "startsWith ''${x}'' ''${''"
    by (simp add: startsWith_def)
  have h2: "''x'' = substring ''${x}'' 2 (int (length ''${x}'') - 1)"
    by (simp add: substring_def)
  show ?thesis
    using h1 expandSchema_reports_failure [OF h1 h2,
        where engine = "\<lambda>expr scope. Evaluated JNull (Some ''x is not defined'')"
          and scope = "\<lparr>property = None\<rparr>" and val = JNull
          and err = "Some ''x is not defined''" and missingIsError = False and fb = "[]"
          and path = "[]" and inProperties = False]
    by simp
qed

text \<open>Claim C3 as it is written fails: when \<open>parse\<close> throws, the forgiving pass
  (\<open>missingIsError\<close> false) reports the error too.\<close>

theorem forgiving_pass_reports_thrown_error:
  "snd (expandSchema (\<lambda>expr scope. Throws ''syntax error'') False (JStr ''${a +}'')
          \<lparr>property = None\<rparr> [] False []) = [(error, ''a +: syntax error'')]"
  by (simp add: startsWith_def substring_def substitute_def)

text \<open>
  Claim C7 at the input where the code departs from it: a tree with a null node holds no
  string that starts with the marker, yet \<open>expandSchema\<close> does not return it; the object
  branch throws on the null.
\<close>

theorem expandSchema_null_throws:
  "\<not> unexpanded (JObj [(''default'', JNull)])
   \<and> expandSchema engine m (JObj [(''default'', JNull)]) scope path inProperties fb
        = (Inl (Exn ''Cannot convert undefined or null to object''), fb)"
  by simp

text \<open>
  On a tree with neither a marker string nor a null node, \<open>expandSchema\<close> returns the tree
  itself and gives no feedback, whatever the scope, the path and the strictness flag; so
  a second expansion equals the first.
\<close>

theorem expandSchema_expanded_tree:
  assumes "\<not> unexpanded t" and "\<not> hasNull t"
  shows "expandSchema engine m t scope path inProperties fb = (Inr t, fb)
       \<and> (case expandSchema engine m t scope path inProperties fb of
            (Inr t', fb') \<Rightarrow> expandSchema engine m' t' scope' path' inProperties' fb'
                               = expandSchema engine m t scope path inProperties fb
          | (Inl e, fb') \<Rightarrow> False)"
  using assms expand_plain(1) [of t engine] by simp

theorem expandSchema_expanded_tree_witness:
  "expandSchema (\<lambda>expr scope. Throws ''never called'') True
     (JObj [(''properties'', JObj [(''name'', JObj [(''type'', JStr ''string''),
                                                     (''enum'', JArr [JNum 1, JBool False])])])])
     \<lparr>property = None\<rparr> [] False []
   = (Inr (JObj [(''properties'', JObj [(''name'', JObj [(''type'', JStr ''string''),
                                                     (''enum'', JArr [JNum 1, JBool False])])])]), [])"
proof -
  let ?t = "JObj [(''properties'', JObj [(''name'', JObj [(''type'', JStr ''string''),
                                                     (''enum'', JArr [JNum 1, JBool False])])])]"
  have h1: "\<not> unexpanded ?t" by (simp add: startsWith_def)
  have h2: "\<not> hasNull ?t" by simp
  from expandSchema_expanded_tree [OF h1 h2] show ?thesis by blast
qed

text \<open>
  Claim C10, as amended. A string node that starts with the marker and has at least
  three characters is evaluated without its first two and its last character, whatever
  the last character is. The two-character node \<open>${\<close> is the exception: \<open>substring(2, 1)\<close>
  swaps its indices, and the text evaluated is \<open>{\<close>.
\<close>

theorem expandSchema_expression_text:
  "expandSchema engine m (JStr (''${'' @ body @ [c])) scope path inProperties fb
     = (case substitute engine body (''${'' @ body @ [c]) scope m fb of (v, fb') \<Rightarrow> (Inr v, fb'))
   \<and> expandSchema engine m (JStr ''${'') scope path inProperties fb
     = (case substitute engine ''{'' ''${'' scope m fb of (v, fb') \<Rightarrow> (Inr v, fb'))"
  by (simp add: startsWith_def substring_def)

text \<open>The node \<open>${foo\<close>, with an engine that returns the text it was given: the text
  is \<open>fo\<close>.\<close>

theorem expandSchema_expression_text_witness:
  "expandSchema (\<lambda>expr scope. Evaluated (JStr expr) None) False (JStr ''${foo'')
     \<lparr>property = None\<rparr> [] False [] = (Inr (JStr ''fo''), [])"
  using expandSchema_expression_text
    [where engine = "\<lambda>expr scope. Evaluated (JStr expr) None" and m = False
       and body = "''fo''" and c = "CHR ''o''" and scope = "\<lparr>property = None\<rparr>"
       and path = "[]" and inProperties = False and fb = "[]"]
  by (simp add: substitute_def)

text \<open>Claim C10 as it is written fails at the node \<open>${\<close>: removing the first two and
  the last character leaves the empty text, whose evaluation by this engine is falsy and
  would leave the node; the code evaluates \<open>{\<close> and substitutes it.\<close>

theorem expandSchema_two_character_marker:
  "expandSchema (\<lambda>expr scope. Evaluated (JStr expr) None) False (JStr ''${'')
     \<lparr>property = None\<rparr> [] False [] = (Inr (JStr ''{''), [])
   \<and> butlast (drop 2 ''${'') = []
   \<and> substitute (\<lambda>expr scope. Evaluated (JStr expr) None) [] ''${'' \<lparr>property = None\<rparr> False []
       = (JStr ''${'', [])"
  by (simp add: startsWith_def substring_def substitute_def)


section \<open>Properties of the emitted schema\<close>

lemma digit_not_dollar: "digit n \<noteq> CHR ''$''"
proof -
  have "''0123456789'' ! (n mod 10) \<in> set ''0123456789''"
    by (rule nth_mem) simp
  then show ?thesis by auto
qed

lemma decimal_hd: "decimal n \<noteq> [] \<and> hd (decimal n) \<noteq> CHR ''$''"
proof (induction n rule: decimal.induct)
  case (1 n)
  show ?case
  proof (cases "n < 10")
    case True
    then have "decimal n = [digit n]"
      by (subst decimal.simps) simp
    then show ?thesis using digit_not_dollar [of n] by (simp del: digit.simps)
  next
    case False
    with "1" have "decimal (n div 10) \<noteq> [] \<and> hd (decimal (n div 10)) \<noteq> CHR ''$''" by blast
    moreover have "decimal n = decimal (n div 10) @ [digit n]"
      using False by (subst decimal.simps) simp
    ultimately show ?thesis by simp
  qed
qed

lemma replacer_index: "replacer (decimal i) val = Some val"
proof -
  have "decimal i \<noteq> ''$templates''" "decimal i \<noteq> ''$requires''"
    using decimal_hd [of i] by auto
  then show ?thesis by (simp add: replacer_def)
qed

lemma replacer_None: "(replacer k val = None) = (k = ''$templates'' \<or> k = ''$requires'')"
  by (simp add: replacer_def)

lemma stringifyElements_length: "length (stringifyElements vals i) = length vals"
  by (induction vals arbitrary: i) simp_all

lemma stringifyElements_nth:
  "j < length vals \<Longrightarrow> stringifyElements vals i ! j = stringifyTree (vals ! j)"
  by (induction vals arbitrary: i j) (auto simp: replacer_index nth_Cons split: nat.splits)

lemma stringifyEntries_map_of:
  "map_of (stringifyEntries entries) k =
     (if k = ''$templates'' \<or> k = ''$requires'' then None
      else map_option stringifyTree (map_of entries k))"
  by (induction entries) (auto simp: replacer_def)

lemma select_kept:
  "Key ''$templates'' \<notin> set p \<Longrightarrow> Key ''$requires'' \<notin> set p \<Longrightarrow>
     select (stringifyTree t) p = map_option stringifyTree (select t p)"
proof (induction t p rule: select.induct)
  case (2 entries k p)
  then show ?case
    by (cases "map_of entries k") (auto simp: stringifyEntries_map_of)
next
  case (3 vals i p)
  then show ?case
    by (simp add: stringifyElements_length stringifyElements_nth)
qed (simp_all)

lemma select_dropped:
  "Key ''$templates'' \<in> set p \<or> Key ''$requires'' \<in> set p \<Longrightarrow> select (stringifyTree t) p = None"
proof (induction t p rule: select.induct)
  case (2 entries k p)
  then show ?case
    by (cases "map_of entries k") (auto simp: stringifyEntries_map_of)
next
  case (3 vals i p)
  then show ?case
    by (auto simp add: stringifyElements_length stringifyElements_nth)
qed (simp_all)


text \<open>
  Claim C4, as amended. The tree that is serialized is the expanded schema without the
  entries keyed \<open>$templates\<close> or \<open>$requires\<close>, at every depth: what stands under a path
  through neither key is the serialized form of what stood there in the expanded schema,
  and nothing stands under a path through one of the two keys. Every other key passes
  through, \<open>$entities\<close> and \<open>$public\<close> among them. The root is never left out, and
  the text of this tree is what the end of \<open>generate\<close> hands to \<open>writeFile\<close> for
  \<open><prefix>.schema.dialog\<close> when the strict expansion returns.
\<close>

theorem stringify_drops_templates_and_requires:
  "(Key ''$templates'' \<notin> set p \<and> Key ''$requires'' \<notin> set p \<longrightarrow>
      select (stringifyTree t) p = map_option stringifyTree (select t p))
   \<and> (Key ''$templates'' \<in> set p \<or> Key ''$requires'' \<in> set p \<longrightarrow>
      select (stringifyTree t) p = None)
   \<and> stringify render t = Some (render (stringifyTree t))
   \<and> emitSchema ex engine render outDir force tree st =
       (case expandSchema engine True tree (theScope st) [] False (reported st) of
          (Inl e, fb') \<Rightarrow> report error (emsg e) (st\<lparr>reported := fb'\<rparr>)
        | (Inr expanded, fb') \<Rightarrow>
            writeFile ex (pathJoin ex outDir (prefix (theScope st) @ ''.schema.dialog''))
              (render (stringifyTree expanded)) force (st\<lparr>reported := fb'\<rparr>))"
  using select_kept [of p t] select_dropped [of p t]
  by (simp add: stringify_def replacer_def emitSchema_def split: prod.splits sum.splits)

text \<open>The theorem on a small schema: the type is kept, what stands under \<open>$requires\<close> is
  gone.\<close>

theorem stringify_drops_templates_and_requires_witness:
  "select (stringifyTree (JObj [(''$requires'', JArr [JStr ''a'']), (''type'', JStr ''object'')]))
     [Key ''type''] = Some (JStr ''object'')
   \<and> select (stringifyTree (JObj [(''$requires'', JArr [JStr ''a'']), (''type'', JStr ''object'')]))
     [Key ''$requires'', Index 0] = None"
proof -
  let ?t = "JObj [(''$requires'', JArr [JStr ''a'']), (''type'', JStr ''object'')]"
  have "select (stringifyTree ?t) [Key ''type''] = map_option stringifyTree (select ?t [Key ''type''])"
    using stringify_drops_templates_and_requires [of "[Key ''type'']" ?t, THEN conjunct1] by simp
  moreover have "select ?t [Key ''type''] = Some (JStr ''object'')"
    by simp
  moreover have "select (stringifyTree ?t) [Key ''$requires'', Index 0] = None"
    using stringify_drops_templates_and_requires
      [of "[Key ''$requires'', Index 0]" ?t, THEN conjunct2, THEN conjunct1] by simp
  ultimately show ?thesis by simp
qed

text \<open>Claim C4 as it is written fails: \<open>$public\<close> and \<open>$entities\<close> are emitted.\<close>

theorem stringify_keeps_public_and_entities:
  "stringifyTree (JObj [(''$public'', JArr [JStr ''name'']),
       (''properties'', JObj [(''name'', JObj [(''type'', JStr ''string''),
                                                (''$entities'', JArr [JStr ''personName''])])])])
   = JObj [(''$public'', JArr [JStr ''name'']),
       (''properties'', JObj [(''name'', JObj [(''type'', JStr ''string''),
                                                (''$entities'', JArr [JStr ''personName''])])])]"
  by (simp add: replacer_None replacer_index)


section \<open>Properties of the tracker\<close>

subsection \<open>The loop of \<open>basename\<close>\<close>








subsection \<open>What \<open>basename\<close> with an extension returns\<close>

















text \<open>The part \<open>dialog\<close> before a separator at the end of the path: the separator stays
  in the result of \<open>basename\<close>.\<close>

lemma basenameExt_trailing_separator:
  "basenameExt ''/out/dialog/'' ''.dialog'' = ''dialog/''
   \<and> basenameExt ''/out/dialog'' ''.dialog'' = ''dialog''
   \<and> basenameExt ''/out/a.dialog/'' ''.dialog'' = ''a''"
  by code_simp


section \<open>Properties of the locator\<close>

lemma findLoop_append:
  "findLoop ex st nm (dirs @ [d]) t =
     (case findLoop ex st nm dirs t of
        Inl e \<Rightarrow> Inl e
      | Inr t' \<Rightarrow> (case probe ex st nm d of
                     None \<Rightarrow> Inr t'
                   | Some (Inl e) \<Rightarrow> Inl e
                   | Some (Inr found) \<Rightarrow> Inr (Some found)))"
  by (induction dirs arbitrary: t) (auto simp: probe_def split: sum.splits)

lemma findLoop_undefined:
  "(findLoop ex st nm dirs t = Inr None) = (t = None \<and> list_all (\<lambda>d. \<not> contains ex st nm d) dirs)"
  by (induction dirs arbitrary: t) (auto simp: contains_def split: sum.splits)

lemma findLoop_returns:
  "list_all (\<lambda>d. case probe ex st nm d of Some (Inl e) \<Rightarrow> False | _ \<Rightarrow> True) dirs \<Longrightarrow>
     \<exists>t'. findLoop ex st nm dirs t = Inr t'"
  by (induction dirs arbitrary: t) (auto simp: probe_def split: sum.splits if_splits)

lemma findTemplate_pair:
  "probe ex st nm a = Some (Inr ta) \<Longrightarrow> probe ex st nm b = Some (Inr tb) \<Longrightarrow>
     findTemplate ex st nm [a, b] = Inr (Some tb)"
  by (auto simp: findTemplate_def probe_def split: if_splits sum.splits)

text \<open>
  Claim C5. \<open>findTemplate\<close> goes through all the directories in order: the result for a
  list with one more directory at its end is what that directory holds for the name,
  when it holds something, and the result for the list before it otherwise, so a later
  match overwrites an earlier one; with \<open>[a, b]\<close> both holding the name the result is
  the one of \<open>b\<close>. It returns undefined exactly when no directory holds the name as a
  literal file or as an \<open>.lg\<close> file. It returns when no read fails; a read that throws
  leaves the loop with the exception.
\<close>

theorem findTemplate_last_match_wins:
  "findTemplate ex st nm (dirs @ [d]) =
     (case findTemplate ex st nm dirs of
        Inl e \<Rightarrow> Inl e
      | Inr t \<Rightarrow> (case probe ex st nm d of
                    None \<Rightarrow> Inr t
                  | Some (Inl e) \<Rightarrow> Inl e
                  | Some (Inr found) \<Rightarrow> Inr (Some found)))
   \<and> (probe ex st nm a = Some (Inr ta) \<and> probe ex st nm b = Some (Inr tb)
        \<longrightarrow> findTemplate ex st nm [a, b] = Inr (Some tb))
   \<and> ((findTemplate ex st nm dirs = Inr None) = list_all (\<lambda>d. \<not> contains ex st nm d) dirs)
   \<and> (list_all (\<lambda>d. case probe ex st nm d of Some (Inl e) \<Rightarrow> False | _ \<Rightarrow> True) dirs
        \<longrightarrow> (\<exists>t. findTemplate ex st nm dirs = Inr t))"
  using findLoop_append [of ex st nm dirs d None] findTemplate_pair [of ex st nm a ta b tb]
    findLoop_undefined [of ex st nm dirs None] findLoop_returns [of ex st nm dirs None]
  by (simp add: findTemplate_def)

text \<open>Two directories that both hold the literal file \<open>x\<close>: the second one wins, in
  either order.\<close>

theorem findTemplate_last_match_wins_witness:
  "findTemplate demo (blank [] [''/a/x'' \<mapsto> File ''from a'', ''/b/x'' \<mapsto> File ''from b''])
     ''x'' [''/a'', ''/b''] = Inr (Some (Text ''from b''))
   \<and> findTemplate demo (blank [] [''/a/x'' \<mapsto> File ''from a'', ''/b/x'' \<mapsto> File ''from b''])
     ''x'' [''/b'', ''/a''] = Inr (Some (Text ''from a''))"
proof -
  let ?st = "blank [] [''/a/x'' \<mapsto> File ''from a'', ''/b/x'' \<mapsto> File ''from b'']"
  have a: "probe demo ?st ''x'' ''/a'' = Some (Inr (Text ''from a''))"
    by code_simp
  have b: "probe demo ?st ''x'' ''/b'' = Some (Inr (Text ''from b''))"
    by code_simp
  show ?thesis
    using a b
      findTemplate_last_match_wins [of demo ?st "''x''" "[]" "''/a''" "''/a''" "Text ''from a''"
        "''/b''" "Text ''from b''"]
      findTemplate_last_match_wins [of demo ?st "''x''" "[]" "''/a''" "''/b''" "Text ''from b''"
        "''/a''" "Text ''from a''"]
    by blast
qed


section \<open>Properties of the materializer\<close>

text \<open>
  Claim C6. A call of \<open>processTemplate\<close> that returns leaves the working directory as it
  was at entry, on each of its exits: after the short circuit, after a normal end of the
  \<open>try\<close> block and after an exception, of an evaluation or of the file system, that the
  \<open>catch\<close> reported; and this although the body of an \<open>.lg\<close> template is evaluated in
  the directory of the template.
\<close>

theorem processTemplate_restores_cwd:
  assumes "processTemplate ex depth templateName templateDirs outDir force ignorable st
             = Some (outPath, st')"
  shows "cwd st' = cwd st"
proof (cases depth)
  case 0
  with assms show ?thesis by simp
next
  case (Suc n)
  with assms show ?thesis
    by (auto simp: processTemplateBody_def chdir_def report_def Let_def
             split: option.splits prod.splits)
qed

text \<open>
  The theorem at two runs on an \<open>.lg\<close> template of the directory \<open>/t\<close>, started in
  \<open>/w\<close>. In the first the body is evaluated in \<open>/t\<close>, as the file written shows, and
  the run ends in \<open>/w\<close>. In the second the evaluation throws after the change of
  directory; the exception is reported and the run ends in \<open>/w\<close>.
\<close>

theorem processTemplate_restores_cwd_witness:
  "(\<exists>outPath st'.
      processTemplate demo 1 ''a.lg'' [''/t''] ''/o'' False False
        (blank [] [''/t/a.lg.lg'' \<mapsto> File ''# template'']) = Some (outPath, st')
      \<and> disk st' ''/o/bot-a.lg'' = Some (File ''/t'') \<and> cwd st' = ''/w'')
   \<and> (\<exists>outPath st'.
      processTemplate (demo\<lparr>evalTemplate := \<lambda>lgFile st. Inl (Exn ''boom'')\<rparr>) 1 ''a.lg'' [''/t'']
        ''/o'' False False (blank [] [''/t/a.lg.lg'' \<mapsto> File ''# template'']) = Some (outPath, st')
      \<and> reported st' = [(info, ''Generating /o/bot-a.lg''), (error, ''boom'')] \<and> cwd st' = ''/w'')"
proof -
  let ?st = "blank [] [''/t/a.lg.lg'' \<mapsto> File ''# template'']"
  let ?boom = "demo\<lparr>evalTemplate := \<lambda>lgFile st. Inl (Exn ''boom'')\<rparr>"
  have "map_option (\<lambda>(p, s). disk s ''/o/bot-a.lg'')
          (processTemplate demo 1 ''a.lg'' [''/t''] ''/o'' False False ?st) = Some (Some (File ''/t''))"
    by code_simp
  then obtain p1 s1 where
    r1: "processTemplate demo 1 ''a.lg'' [''/t''] ''/o'' False False ?st = Some (p1, s1)"
    and d1: "disk s1 ''/o/bot-a.lg'' = Some (File ''/t'')"
    by auto
  have "map_option (\<lambda>(p, s). reported s)
          (processTemplate ?boom 1 ''a.lg'' [''/t''] ''/o'' False False ?st)
          = Some [(info, ''Generating /o/bot-a.lg''), (error, ''boom'')]"
    by code_simp
  then obtain p2 s2 where
    r2: "processTemplate ?boom 1 ''a.lg'' [''/t''] ''/o'' False False ?st = Some (p2, s2)"
    and d2: "reported s2 = [(info, ''Generating /o/bot-a.lg''), (error, ''boom'')]"
    by auto
  have c: "cwd ?st = ''/w''"
    by (simp add: blank_def)
  from processTemplate_restores_cwd [OF r1] processTemplate_restores_cwd [OF r2] c
  have "cwd s1 = ''/w''" "cwd s2 = ''/w''" by simp_all
  with r1 d1 r2 d2 show ?thesis by blast
qed

text \<open>
  Claim C2 at the input where the code departs from it. The literal template \<open>a.md\<close> is
  materialized twice, without \<open>force\<close>, while its output \<open>/o/bot-a.md\<close> is on the disk.
  The first call claims the identity, skips the write and warns, and leaves the list of
  \<open>md\<close> in the tracker empty; so the second call is not redirected to the file, claims
  the identity again and warns again.
\<close>

theorem skipped_file_is_not_registered:
  "map_option (\<lambda>(outPath, st'). (outPath, reported st', templates (theScope st') ''md''))
     (processTemplate demo 1 ''a.md'' [''/t''] ''/o'' False False
        (blank [] [''/t/a.md'' \<mapsto> File ''hi'', ''/o/bot-a.md'' \<mapsto> File ''old'']))
     = Some (''/o/bot-a.md'', [(warning, ''Skipping already existing /o/bot-a.md'')], Some [])
   \<and> map_option reported
       (generateAll (\<lambda>t. processTemplate demo 1 t [''/t''] ''/o'' False False) [''a.md'', ''a.md'']
          (blank [] [''/t/a.md'' \<mapsto> File ''hi'', ''/o/bot-a.md'' \<mapsto> File ''old'']))
     = Some [(warning, ''Skipping already existing /o/bot-a.md''),
             (warning, ''Skipping already existing /o/bot-a.md'')]"
  by code_simp


subsection \<open>The depth of calls\<close>

text \<open>What a step returns with one recursive call, it returns with every call that
  returns at least as much.\<close>

lemma generateAll_mono:
  assumes "\<And>g s r. callee g s = Some r \<Longrightarrow> callee' g s = Some r"
    and "generateAll callee gs st = Some r"
  shows "generateAll callee' gs st = Some r"
  using assms(2)
proof (induction gs arbitrary: st)
  case Nil
  then show ?case by simp
next
  case (Cons g gs)
  then obtain p st1 where c: "callee g st = Some (p, st1)" and g: "generateAll callee gs st1 = Some r"
    by (auto split: option.splits)
  from assms(1) [OF c] Cons.IH [OF g] show ?case by simp
qed

lemma fanOut_mono:
  assumes "\<And>g s r. callee g s = Some r \<Longrightarrow> callee' g s = Some r"
    and "fanOut ex callee lgFile st = Some r"
  shows "fanOut ex callee' lgFile st = Some r"
  using assms(2) generateAll_mono [of callee callee', OF assms(1)]
  by (fastforce simp: fanOut_def split: if_splits sum.splits option.splits)

lemma sections_mono:
  assumes "\<And>g s r. callee g s = Some r \<Longrightarrow> callee' g s = Some r"
    and "sections ex callee template st = Some r"
  shows "sections ex callee' template st = Some r"
  using assms(2) fanOut_mono [of callee callee', OF assms(1)]
  by (auto simp: sections_def split: Template.splits prod.splits option.splits)

lemma materialize_mono:
  assumes "\<And>g s r. callee g s = Some r \<Longrightarrow> callee' g s = Some r"
    and "materialize ex callee template templateName templateDirs outDir force st = Some r"
  shows "materialize ex callee' template templateName templateDirs outDir force st = Some r"
proof (cases "template = Text []")
  case True
  with assms(2) show ?thesis by (simp add: materialize_def)
next
  case False
  obtain status outPath st1 where
    o: "(if (case template of Text text \<Rightarrow> True | LG lgFile \<Rightarrow> hasSection lgFile ''template'')
         then outputFile ex templateDirs outDir force template templateName st
         else (None, [], st)) = (status, outPath, st1)"
    using prod_cases3 by blast
  have eq: "materialize ex c template templateName templateDirs outDir force st =
      (case status of
         Some e \<Rightarrow> Some (Some e, outPath, st1)
       | None \<Rightarrow> (case sections ex c template st1 of
                    None \<Rightarrow> None
                  | Some (status', st2) \<Rightarrow> Some (status', outPath, st2)))" for c
    using False unfolding materialize_def o by (simp split: option.splits)
  show ?thesis
  proof (cases status)
    case (Some e)
    with assms(2) show ?thesis by (simp add: eq)
  next
    case None
    with assms(2) obtain x where x: "sections ex callee template st1 = Some x"
      by (auto simp: eq split: option.splits)
    from sections_mono [of callee callee', OF assms(1) x]
    have "sections ex callee' template st1 = Some x" by simp
    with assms(2) None x show ?thesis by (simp add: eq)
  qed
qed

lemma tryBlock_mono:
  assumes "\<And>g s r. callee g s = Some r \<Longrightarrow> callee' g s = Some r"
    and "tryBlock ex callee templateName templateDirs outDir force ignorable st = Some r"
  shows "tryBlock ex callee' templateName templateDirs outDir force ignorable st = Some r"
proof -
  note m = materialize_mono [of callee callee', OF assms(1)]
  show ?thesis
    using assms(2)
    unfolding tryBlock_def
    by (auto split: prod.splits option.splits sum.splits if_splits intro: m)
qed

lemma processTemplateBody_mono:
  assumes "\<And>t ds od f i s r. self t ds od f i s = Some r \<Longrightarrow> self' t ds od f i s = Some r"
    and "processTemplateBody ex self templateName templateDirs outDir force ignorable st = Some r"
  shows "processTemplateBody ex self' templateName templateDirs outDir force ignorable st = Some r"
proof -
  from assms(2) obtain x where
    x: "tryBlock ex (\<lambda>g. self g templateDirs outDir force False)
          templateName templateDirs outDir force ignorable st = Some x"
    by (auto simp: processTemplateBody_def Let_def split: option.splits)
  have "tryBlock ex (\<lambda>g. self' g templateDirs outDir force False)
          templateName templateDirs outDir force ignorable st = Some x"
    by (rule tryBlock_mono [OF _ x]) (rule assms(1))
  with assms(2) x show ?thesis
    by (simp add: processTemplateBody_def Let_def)
qed

lemma processTemplate_deeper:
  "processTemplate ex depth templateName templateDirs outDir force ignorable st = Some r
     \<Longrightarrow> processTemplate ex (Suc depth) templateName templateDirs outDir force ignorable st = Some r"
proof (induction depth arbitrary: templateName templateDirs outDir force ignorable st r)
  case 0
  then show ?case by simp
next
  case (Suc depth)
  from Suc.prems have
    b: "processTemplateBody ex (processTemplate ex depth) templateName templateDirs outDir
          force ignorable st = Some r"
    by simp
  have "processTemplateBody ex (processTemplate ex (Suc depth)) templateName templateDirs outDir
          force ignorable st = Some r"
    by (rule processTemplateBody_mono [OF _ b]) (rule Suc.IH)
  then show ?case by (simp del: processTemplate.simps add: processTemplate.simps(2) [of ex "Suc depth"])
qed


text \<open>
  The depth only bounds the recursion: a call of \<open>processTemplate\<close> that returns within
  some depth returns the same path and the same state within every larger depth. So a
  result that is stated at one depth is the result of the call.
\<close>

theorem processTemplate_depth:
  assumes "processTemplate ex depth templateName templateDirs outDir force ignorable st = Some r"
    and "depth \<le> depth'"
  shows "processTemplate ex depth' templateName templateDirs outDir force ignorable st = Some r"
  using assms(2, 1)
proof (induction rule: dec_induct)
  case base
  then show ?case .
next
  case (step n)
  then show ?case by (metis processTemplate_deeper)
qed

text \<open>The theorem at the literal template \<open>a.md\<close>, which needs depth one and returns the
  same within depth five.\<close>

theorem processTemplate_depth_witness:
  "map_option fst (processTemplate demo 5 ''a.md'' [''/t''] ''/o'' False False
                     (blank [] [''/t/a.md'' \<mapsto> File ''hi''])) = Some ''/o/bot-a.md''"
proof -
  let ?st = "blank [] [''/t/a.md'' \<mapsto> File ''hi'']"
  have "map_option fst (processTemplate demo 1 ''a.md'' [''/t''] ''/o'' False False ?st)
          = Some ''/o/bot-a.md''"
    by code_simp
  then obtain st' where
    "processTemplate demo 1 ''a.md'' [''/t''] ''/o'' False False ?st = Some (''/o/bot-a.md'', st')"
    by auto
  from processTemplate_depth [OF this, of 5] show ?thesis by simp
qed

lemma demo_probe_a:
  assumes "disk st = [''/t/a.lg'' \<mapsto> File ''# templates'']"
  shows "findTemplate (demo\<lparr>evalTemplates := \<lambda>lgFile st. Inr [''a'']\<rparr>) st ''a'' [''/t'']
           = Inr (Some (LG \<lparr>lgtemplates = [\<lparr>tname = ''templates'', source = ''/t/a.lg''\<rparr>]\<rparr>))"
  using assms
  by (simp add: findTemplate_def pathExists_def templatePath_def demo_def startsWith_def
        parseFile_def readFile_def demoParse_def)


text \<open>
  The recursion of line 178 need not end. The file \<open>a.lg\<close> has a \<open>templates\<close> section,
  and the section evaluates to the name \<open>a\<close> of the template itself: the call for \<open>a\<close>
  returns within no depth, whatever the tracker holds for other names.
\<close>

theorem self_naming_template_never_returns:
  assumes "disk st = [''/t/a.lg'' \<mapsto> File ''# templates'']"
    and "\<forall>arr. templates (theScope st) [] = Some arr \<longrightarrow> find (\<lambda>r. fullName r = ''a'') arr = None"
  shows "processTemplate (demo\<lparr>evalTemplates := \<lambda>lgFile st. Inr [''a'']\<rparr>) depth ''a'' [''/t'']
           ''/o'' force ignorable st = None"
  using assms
proof (induction depth arbitrary: st ignorable)
  case 0
  then show ?case by simp
next
  case (Suc depth)
  let ?ex = "demo\<lparr>evalTemplates := \<lambda>lgFile st. Inr [''a'']\<rparr>"
  let ?lg = "\<lparr>lgtemplates = [\<lparr>tname = ''templates'', source = ''/t/a.lg''\<rparr>]\<rparr>"
  obtain tr where ex: "existingRef ''a'' (templates (theScope st)) = (None, tr)"
    and tr: "\<forall>arr. tr [] = Some arr \<longrightarrow> find (\<lambda>r. fullName r = ''a'') arr = None"
    using Suc.prems(2)
    by (cases "templates (theScope st) []") (auto simp: existingRef_def extname_def lastPart_def trimmed_def)
  let ?st1 = "setTracker tr st"
  have d1: "disk ?st1 = [''/t/a.lg'' \<mapsto> File ''# templates'']"
    unfolding Suc.prems(1) [symmetric] by (simp add: setTracker_def)
  have t1: "\<forall>arr. templates (theScope ?st1) [] = Some arr \<longrightarrow> find (\<lambda>r. fullName r = ''a'') arr = None"
    using tr by (simp add: setTracker_def)
  have rec: "processTemplate ?ex depth ''a'' [''/t''] ''/o'' force False ?st1 = None"
    by (rule Suc.IH [OF d1 t1])
  have sec: "sections ?ex (\<lambda>generate. processTemplate ?ex depth generate [''/t''] ''/o'' force False)
               (LG ?lg) ?st1 = None"
    using rec by (simp add: sections_def attachEntities_def fanOut_def hasSection_def demo_def)
  have "tryBlock ?ex (\<lambda>generate. processTemplate ?ex depth generate [''/t''] ''/o'' force False)
          ''a'' [''/t''] ''/o'' force ignorable st = None"
    using ex demo_probe_a [OF d1] sec
    by (simp add: tryBlock_def materialize_def hasSection_def)
  then show ?case
    by (simp add: processTemplateBody_def)
qed

theorem self_naming_template_never_returns_witness:
  "processTemplate (demo\<lparr>evalTemplates := \<lambda>lgFile st. Inr [''a'']\<rparr>) 9 ''a'' [''/t'']
     ''/o'' False False (blank [] [''/t/a.lg'' \<mapsto> File ''# templates'']) = None"
proof -
  let ?st = "blank [] [''/t/a.lg'' \<mapsto> File ''# templates'']"
  have d: "disk ?st = [''/t/a.lg'' \<mapsto> File ''# templates'']"
    by (simp add: blank_def)
  have t: "\<forall>arr. templates (theScope ?st) [] = Some arr
             \<longrightarrow> find (\<lambda>r. fullName r = ''a'') arr = None"
    by (simp add: blank_def)
  from self_naming_template_never_returns [OF d t] show ?thesis .
qed


section \<open>Properties of the orchestrator\<close>

text \<open>
  Claim C1 at the input where the code departs from it. The property \<open>n\<close> of type \<open>s\<close>
  declares the entity \<open>age\<close> and no \<open>$templates\<close>; the template directory holds the
  template \<open>s\<close> and no template \<open>ageEntity-s\<close>. The orchestrator passes \<open>false\<close> for
  \<open>ignorable\<close> (line 226), so the absence is reported as an error. The materializer
  itself reports nothing for the same name when \<open>ignorable\<close> is true.
\<close>

theorem absent_entity_template_is_reported:
  "map_option reported
     (processTemplates demo 2 [''/t''] [''en''] ''/o'' False
        (blank [(''n'', \<lparr>ptype = ''s'', ptemplates = None, pentities = Some [''age'']\<rparr>)]
               [''/t/s'' \<mapsto> File ''hi'']))
     = Some [(info, ''Generating /o/bot-s''), (error, ''Missing template ageEntity-s'')]
   \<and> map_option (\<lambda>(outPath, st'). reported st')
       (processTemplate demo 1 ''ageEntity-s'' [''/t''] ''/o'' False True
          (blank [(''n'', \<lparr>ptype = ''s'', ptemplates = None, pentities = Some [''age'']\<rparr>)]
                 [''/t/s'' \<mapsto> File ''hi'']))
     = Some []"
  by code_simp

text \<open>
  Claim C9, as amended. In a round of the loop over the properties, once the templates
  of the property are processed: the error is reported, once, exactly when the property
  then has no \<open>$entities\<close>, neither declared in the schema nor attached by a template,
  whether or not it declares \<open>$templates\<close>; a property that has \<open>$entities\<close> and declares
  \<open>$templates\<close> is left as it is; a property that has \<open>$entities\<close> and no \<open>$templates\<close>
  has the templates of its entities processed, and the orchestrator reports nothing of
  its own.
\<close>

theorem missing_entities_reported:
  assumes "generateAll callee (case ptemplates prop of None \<Rightarrow> [ptype prop] | Some ts \<Rightarrow> ts)
             (st\<lparr>theScope := (theScope st)\<lparr>property := Some key,
                                            scopeType := Some (ptype prop)\<rparr>\<rparr>) = Some st1"
  shows "(entitiesOf st1 key = None \<longrightarrow>
            processProperty callee (key, prop) st
              = Some (st1\<lparr>reported := reported st1 @
                    [(error, key @ '' does not have $entities defined in schema or template.'')]\<rparr>))
       \<and> (entitiesOf st1 key = Some es \<and> ptemplates prop \<noteq> None \<longrightarrow>
            processProperty callee (key, prop) st = Some st1)
       \<and> (entitiesOf st1 key = Some es \<and> ptemplates prop = None \<longrightarrow>
            processProperty callee (key, prop) st = entityLoop callee es st1)"
proof -
  have "processProperty callee (key, prop) st = processEntities callee key prop st1"
    unfolding processProperty_def prod.case assms option.case by (rule refl)
  then show ?thesis
    by (simp add: processEntities_def report_def)
qed

text \<open>The theorem at a property with neither \<open>$templates\<close> nor \<open>$entities\<close>, whose
  template \<open>s\<close> is a literal file: after the file is generated, the error is reported.\<close>

theorem missing_entities_reported_witness:
  "map_option reported
     (processProperty (\<lambda>t. processTemplate demo 1 t [''/t''] ''/o'' False False)
        (''n'', \<lparr>ptype = ''s'', ptemplates = None, pentities = None\<rparr>)
        (blank [(''n'', \<lparr>ptype = ''s'', ptemplates = None, pentities = None\<rparr>)]
               [''/t/s'' \<mapsto> File ''hi'']))
     = Some [(info, ''Generating /o/bot-s''),
             (error, ''n does not have $entities defined in schema or template.'')]"
proof -
  let ?decl = "\<lparr>ptype = ''s'', ptemplates = None, pentities = None\<rparr>"
  let ?st = "blank [(''n'', ?decl)] [''/t/s'' \<mapsto> File ''hi'']"
  let ?callee = "\<lambda>t. processTemplate demo 1 t [''/t''] ''/o'' False False"
  have "map_option (\<lambda>s. (entitiesOf s ''n'', reported s))
          (generateAll ?callee (case ptemplates ?decl of None \<Rightarrow> [ptype ?decl] | Some ts \<Rightarrow> ts)
             (?st\<lparr>theScope := (theScope ?st)\<lparr>property := Some ''n'',
                                              scopeType := Some (ptype ?decl)\<rparr>\<rparr>))
          = Some (None, [(info, ''Generating /o/bot-s'')])"
    by code_simp
  then obtain st1 where
    run: "generateAll ?callee (case ptemplates ?decl of None \<Rightarrow> [ptype ?decl] | Some ts \<Rightarrow> ts)
             (?st\<lparr>theScope := (theScope ?st)\<lparr>property := Some ''n'',
                                              scopeType := Some (ptype ?decl)\<rparr>\<rparr>) = Some st1"
    and none: "entitiesOf st1 ''n'' = None"
    and rep: "reported st1 = [(info, ''Generating /o/bot-s'')]"
    by auto
  from missing_entities_reported [OF run] none rep show ?thesis by simp
qed

text \<open>Claim C9 as it is written fails: a property that declares \<open>$templates\<close> and has no
  \<open>$entities\<close> is reported.\<close>

theorem declared_templates_without_entities_reported:
  "map_option reported
     (processTemplates demo 2 [''/t''] [''en''] ''/o'' False
        (blank [(''n'', \<lparr>ptype = ''s'', ptemplates = Some [''s''], pentities = None\<rparr>)]
               [''/t/s'' \<mapsto> File ''hi'']))
     = Some [(info, ''Generating /o/bot-s''),
             (error, ''n does not have $entities defined in schema or template.'')]"
  by code_simp

end
